theory Spec2Isabelle
  imports Main
begin

section \<open>Text primitives of the host language\<close>

text \<open>
  A Python \<open>str\<close> is modelled as a \<open>string\<close> whose characters are the code points
  below 256.  The character classes below are the ones Python's \<open>re\<close> module uses for
  \<open>str\<close> patterns on that range: \<open>\d\<close> is the ten ASCII digits, \<open>\s\<close> (and
  \<open>str.isspace\<close>, used by \<open>strip\<close> and \<open>split\<close>) is the set
  9-13, 28-32, 133, 160, and \<open>\w\<close> is the alphanumeric code points plus the underscore.
  Under \<open>re.IGNORECASE\<close> the ASCII letters of the patterns of this program match
  exactly their two ASCII cases on this range.
\<close>

definition is_digit :: "char \<Rightarrow> bool" where
  "is_digit c = (let n = (of_char c :: nat) in 48 \<le> n \<and> n \<le> 57)"

definition is_space :: "char \<Rightarrow> bool" where
  "is_space c = (let n = (of_char c :: nat) in
     (9 \<le> n \<and> n \<le> 13) \<or> (28 \<le> n \<and> n \<le> 32) \<or> n = 133 \<or> n = 160)"

definition is_word :: "char \<Rightarrow> bool" where
  "is_word c = (let n = (of_char c :: nat) in
     (48 \<le> n \<and> n \<le> 57) \<or> (65 \<le> n \<and> n \<le> 90) \<or> n = 95 \<or> (97 \<le> n \<and> n \<le> 122)
     \<or> n = 170 \<or> n = 178 \<or> n = 179 \<or> n = 181 \<or> n = 185 \<or> n = 186
     \<or> (188 \<le> n \<and> n \<le> 190) \<or> (192 \<le> n \<and> n \<le> 214) \<or> (216 \<le> n \<and> n \<le> 246)
     \<or> 248 \<le> n)"

definition to_lower :: "char \<Rightarrow> char" where
  "to_lower c = (let n = (of_char c :: nat) in
     if 65 \<le> n \<and> n \<le> 90 then char_of (n + 32) else c)"

definition digit_value :: "char \<Rightarrow> int" where
  "digit_value c = of_char c - 48"

text \<open>\<open>int(s)\<close> on a run of digits: the decimal value, unbounded.\<close>

definition int_of_digits :: "string \<Rightarrow> int" where
  "int_of_digits ds = foldl (\<lambda>a c. 10 * a + digit_value c) 0 ds"

text \<open>\<open>s.strip()\<close>: whitespace removed at both ends.\<close>

definition strip :: "string \<Rightarrow> string" where
  "strip s = rev (dropWhile is_space (rev (dropWhile is_space s)))"

definition starts_with :: "string \<Rightarrow> string \<Rightarrow> bool" where
  "starts_with p s = (take (length p) s = p)"

text \<open>A lower-case ASCII literal matched at the head of \<open>s\<close> under \<open>re.IGNORECASE\<close>.\<close>

definition starts_with_ci :: "string \<Rightarrow> string \<Rightarrow> bool" where
  "starts_with_ci p s = (map to_lower (take (length p) s) = p)"

text \<open>
  \<open>s.replace(old, new)\<close>: every occurrence of \<open>old\<close>, found from the left without
  overlap, is replaced.  For an empty \<open>old\<close> Python puts \<open>new\<close> before every character
  and at the end.
\<close>

function str_replace :: "string \<Rightarrow> string \<Rightarrow> string \<Rightarrow> string" where
  "str_replace old new s =
     (if old = [] then new @ concat (map (\<lambda>c. c # new) s)
      else if s = [] then []
      else if starts_with old s then new @ str_replace old new (drop (length old) s)
      else hd s # str_replace old new (tl s))"
  by pat_completeness auto
termination
  by (relation "measure (\<lambda>(old, new, s). length s)") auto

declare str_replace.simps [simp del]

text \<open>
  \<open>re.search\<close>: the pattern is tried at every position from the left, the end of the
  text included, and the first position where it matches wins.  The matcher gets the
  text before the position (for \<open>\b\<close>) and the text from the position on.
\<close>

fun re_search :: "(string \<Rightarrow> string \<Rightarrow> 'a option) \<Rightarrow> string \<Rightarrow> string \<Rightarrow> 'a option" where
  "re_search m left [] = m left []"
| "re_search m left (c # cs) =
     (case m left (c # cs) of
        Some r \<Rightarrow> Some r
      | None \<Rightarrow> re_search m (left @ [c]) cs)"

text \<open>\<open>\b\<close>: exactly one of the two neighbours is a word character.\<close>

definition word_boundary :: "string \<Rightarrow> string \<Rightarrow> bool" where
  "word_boundary left right =
     ((left \<noteq> [] \<and> is_word (last left)) \<noteq> (right \<noteq> [] \<and> is_word (hd right)))"

section \<open>Title heuristics\<close>

text \<open>
  \<open>_extract_episode_number_from_title\<close>:
  \<open>re.match(r'^(?:Pennod|Episode)\s*(\d+)', title)\<close>.
\<close>

definition extract_episode_number_from_title :: "string \<Rightarrow> int option" where
  "extract_episode_number_from_title title =
     (let after_word =
        (if starts_with ''Pennod'' title then Some (drop 6 title)
         else if starts_with ''Episode'' title then Some (drop 7 title)
         else None)
      in case after_word of
           None \<Rightarrow> None
         | Some r \<Rightarrow>
             (let ds = takeWhile is_digit (dropWhile is_space r)
              in if ds = [] then None else Some (int_of_digits ds)))"

text \<open>The class \<open>[;:,\-_\.\s]\<close>.\<close>

definition is_text_sep :: "char \<Rightarrow> bool" where
  "is_text_sep c = (c \<in> set '';:,-_.'' \<or> is_space c)"

text \<open>
  \<open>_extract_episode_number_from_text\<close>: \<open>re.match(r'^(\d+)[;:,\-_\.\s]*', text)\<close>, and
  on a match \<open>re.sub\<close> of the same pattern by the empty string, then \<open>strip\<close>.
  The pattern is anchored, so \<open>re.sub\<close> removes the matched prefix only.
\<close>

definition extract_episode_number_from_text :: "string \<Rightarrow> int option \<times> string" where
  "extract_episode_number_from_text text =
     (let ds = takeWhile is_digit text
      in if ds = [] then (None, text)
         else (Some (int_of_digits ds),
               strip (dropWhile is_text_sep (dropWhile is_digit text))))"

text \<open>
  The tail \<open>(Cyfres|Season)\s*X?(\d+)\<close> under \<open>re.IGNORECASE\<close>, matched at the head
  of \<open>s\<close>: the text that remains after the match and the value of group 2.  Both words have
  six letters.  When an \<open>X\<close> is there and no digit follows it, giving the \<open>X\<close> back
  does not help, since \<open>\d+\<close> then meets the \<open>X\<close>.
\<close>

definition match_season_word :: "string \<Rightarrow> (string \<times> int) option" where
  "match_season_word s =
     (if starts_with_ci ''cyfres'' s \<or> starts_with_ci ''season'' s then
        (let r1 = dropWhile is_space (drop 6 s);
             r2 = (if r1 \<noteq> [] \<and> to_lower (hd r1) = CHR ''x'' then tl r1 else r1);
             ds = takeWhile is_digit r2
         in if ds = [] then None else Some (dropWhile is_digit r2, int_of_digits ds))
      else None)"

text \<open>The class \<open>[-:;,_\.\s]\<close>; \<open>\s*[-:;,_\.\s]*\s*\<close> matches a run of it.\<close>

definition is_season_sep :: "char \<Rightarrow> bool" where
  "is_season_sep c = (c \<in> set ''-:;,_.'' \<or> is_space c)"

text \<open>
  One attempt of \<open>\s*[-:;,_\.\s]*\s*(Cyfres|Season)\s*X?(\d+)\<close> at a position: group 0
  and the value of group 2.  A season word starts with a letter, so the separators
  before it are the whole run.
\<close>

definition match_season_with_separators :: "string \<Rightarrow> (string \<times> int) option" where
  "match_season_with_separators s =
     (case match_season_word (dropWhile is_season_sep s) of
        None \<Rightarrow> None
      | Some (rest, n) \<Rightarrow> Some (take (length s - length rest) s, n))"

text \<open>One attempt of \<open>(Cyfres|Season)\s*X?(\d+)\<close> at a position.\<close>

definition match_season_without_separators :: "string \<Rightarrow> (string \<times> int) option" where
  "match_season_without_separators s =
     (case match_season_word s of
        None \<Rightarrow> None
      | Some (rest, n) \<Rightarrow> Some (take (length s - length rest) s, n))"

text \<open>\<open>_extract_season_number_from_title\<close>.\<close>

definition extract_season_number_from_title :: "string \<Rightarrow> int option \<times> string" where
  "extract_season_number_from_title title =
     (case re_search (\<lambda>left. match_season_with_separators) [] title of
        Some (group0, season_number) \<Rightarrow>
          (Some season_number, strip (str_replace group0 [] title))
      | None \<Rightarrow>
          (case re_search (\<lambda>left. match_season_without_separators) [] title of
             Some (group0, season_number) \<Rightarrow>
               (Some season_number, strip (str_replace group0 [] title))
           | None \<Rightarrow> (None, title)))"

text \<open>
  One attempt of \<open>\bE(\d+)\b\<close> at a position.  \<open>\d+\<close> takes the whole run of digits:
  after a shorter run the next character is a digit and \<open>\b\<close> fails.
\<close>

definition match_episode_token :: "string \<Rightarrow> string \<Rightarrow> int option" where
  "match_episode_token left s =
     (if word_boundary left s \<and> starts_with ''E'' s then
        (let ds = takeWhile is_digit (drop 1 s);
             rest = dropWhile is_digit (drop 1 s)
         in if ds \<noteq> [] \<and> word_boundary (left @ ''E'' @ ds) rest
            then Some (int_of_digits ds) else None)
      else None)"

text \<open>\<open>_extract_episode_number\<close>: \<open>re.search(r'\bE(\d+)\b', text)\<close>.\<close>

definition extract_episode_number :: "string \<Rightarrow> int option" where
  "extract_episode_number text = re_search match_episode_token [] text"

text \<open>
  One attempt of \<open>[_-](?:pennod|episode)_?(\d+)\<close> under \<open>re.IGNORECASE\<close> at a position.
\<close>

definition match_filename_marker :: "string \<Rightarrow> int option" where
  "match_filename_marker s =
     (if s \<noteq> [] \<and> hd s \<in> set ''_-'' then
        (let after_word =
           (if starts_with_ci ''pennod'' (tl s) then Some (drop 6 (tl s))
            else if starts_with_ci ''episode'' (tl s) then Some (drop 7 (tl s))
            else None)
         in case after_word of
              None \<Rightarrow> None
            | Some r \<Rightarrow>
                (let r2 = (if starts_with ''_'' r then drop 1 r else r);
                     ds = takeWhile is_digit r2
                 in if ds = [] then None else Some (int_of_digits ds)))
      else None)"

text \<open>\<open>_extract_episode_number_from_filename\<close>.\<close>

definition extract_episode_number_from_filename :: "string \<Rightarrow> int option" where
  "extract_episode_number_from_filename filename =
     re_search (\<lambda>left. match_filename_marker) [] filename"

text \<open>One attempt of \<open>_P(\d+)\<close> at a position.\<close>

definition match_thumbnail_marker :: "string \<Rightarrow> int option" where
  "match_thumbnail_marker s =
     (if starts_with ''_P'' s then
        (let ds = takeWhile is_digit (drop 2 s)
         in if ds = [] then None else Some (int_of_digits ds))
      else None)"

text \<open>\<open>_extract_episode_number_from_thumbnail\<close>.\<close>

definition extract_episode_number_from_thumbnail :: "string \<Rightarrow> int option" where
  "extract_episode_number_from_thumbnail thumbnail_url =
     re_search (\<lambda>left. match_thumbnail_marker) [] thumbnail_url"

section \<open>Date normalizer\<close>

datatype error =
    ExtractorError string
  | DownloadError
  | KeyError
  | IndexError
  | ValueError

text \<open>
  \<open>ExtractorError\<close> carries the message of the \<open>raise\<close> in the source;
  \<open>DownloadError\<close> is the failure the framework raises itself in a fatal download.
\<close>

text \<open>\<open>WELSH_MONTHS\<close>.\<close>

definition WELSH_MONTHS :: "(string \<times> string) list" where
  "WELSH_MONTHS =
     [(''Ionawr'', ''01''), (''Chwefror'', ''02''), (''Mawrth'', ''03''), (''Ebrill'', ''04''),
      (''Mai'', ''05''), (''Mehefin'', ''06''), (''Gorffennaf'', ''07''), (''Awst'', ''08''),
      (''Medi'', ''09''), (''Hydref'', ''10''), (''Tachwedd'', ''11''), (''Rhagfyr'', ''12'')]"

text \<open>\<open>s.split()\<close>: the maximal runs of characters that are not whitespace.\<close>

function split_ws :: "string \<Rightarrow> string list" where
  "split_ws s =
     (let s' = dropWhile is_space s
      in if s' = [] then []
         else takeWhile (\<lambda>c. \<not> is_space c) s' # split_ws (dropWhile (\<lambda>c. \<not> is_space c) s'))"
  by pat_completeness auto
termination
proof (relation "measure length", simp, goal_cases)
  case (1 s s')
  then obtain c cs where s': "s' = c # cs" and c: "\<not> is_space c"
    by (metis hd_dropWhile list.collapse)
  have "length (dropWhile (\<lambda>c. \<not> is_space c) s') \<le> length cs"
    using c by (simp add: s' length_dropWhile_le)
  moreover have "length s' \<le> length s"
    using 1 by (simp add: length_dropWhile_le)
  ultimately show ?case by (simp add: s')
qed

declare split_ws.simps [simp del]

text \<open>
  \<open>convert_welsh_date\<close>: unpacking anything but three tokens raises \<open>ValueError\<close>, a
  month name outside the table raises \<open>KeyError\<close>.
\<close>

definition convert_welsh_date :: "string \<Rightarrow> error + string" where
  "convert_welsh_date welsh_date =
     (case split_ws welsh_date of
        [day, month_welsh, year] \<Rightarrow>
          (case map_of WELSH_MONTHS month_welsh of
             None \<Rightarrow> Inl KeyError
           | Some month \<Rightarrow> Inr (year @ ''-'' @ month @ ''-'' @ day))
      | _ \<Rightarrow> Inl ValueError)"

subsection \<open>The calendar of the \<open>datetime\<close> library\<close>

text \<open>
  The proleptic Gregorian calendar of \<open>datetime\<close>, years 1 to 9999, with the library's
  day ordinals: day 1 is 0001-01-01 and day 719163 is 1970-01-01.
\<close>

definition is_leap :: "int \<Rightarrow> bool" where
  "is_leap y = (y mod 4 = 0 \<and> (y mod 100 \<noteq> 0 \<or> y mod 400 = 0))"

definition days_in_month :: "int \<Rightarrow> int \<Rightarrow> int" where
  "days_in_month y m =
     (if m = 2 then (if is_leap y then 29 else 28)
      else if m = 4 \<or> m = 6 \<or> m = 9 \<or> m = 11 then 30 else 31)"

definition days_before_year :: "int \<Rightarrow> int" where
  "days_before_year y = (y - 1) * 365 + (y - 1) div 4 - (y - 1) div 100 + (y - 1) div 400"

definition days_before_month :: "int \<Rightarrow> int \<Rightarrow> int" where
  "days_before_month y m =
     [0, 0, 31, 59, 90, 120, 151, 181, 212, 243, 273, 304, 334] ! nat m
     + (if m > 2 \<and> is_leap y then 1 else 0)"

definition ymd2ord :: "int \<Rightarrow> int \<Rightarrow> int \<Rightarrow> int" where
  "ymd2ord y m d = days_before_year y + days_before_month y m + d"

definition ord2ymd :: "int \<Rightarrow> int \<times> int \<times> int" where
  "ord2ymd ordinal =
     (let n = ordinal - 1;
          n400 = n div 146097; n = n mod 146097;
          n100 = n div 36524; n = n mod 36524;
          n4 = n div 1461; n = n mod 1461;
          n1 = n div 365; n = n mod 365;
          year = n400 * 400 + 1 + n100 * 100 + n4 * 4 + n1
      in if n1 = 4 \<or> n100 = 4 then (year - 1, 12, 31)
         else
           (let leapyear = (n1 = 3 \<and> (n4 \<noteq> 24 \<or> n100 = 3));
                month = (n + 50) div 32;
                preceding = [0, 0, 31, 59, 90, 120, 151, 181, 212, 243, 273, 304, 334] ! nat month
                            + (if month > 2 \<and> leapyear then 1 else 0);
                month' = (if preceding > n then month - 1 else month);
                preceding' =
                  (if preceding > n
                   then preceding
                        - ([0, 31, 28, 31, 30, 31, 30, 31, 31, 30, 31, 30, 31] ! nat month'
                           + (if month' = 2 \<and> leapyear then 1 else 0))
                   else preceding)
            in (year, month', n - preceding' + 1)))"

text \<open>
  \<open>datetime.strptime(s, "%Y-%m-%d")\<close>.  The library matches
  \<open>(\d\d\d\d)-(1[0-2]|0[1-9]|[1-9])-(3[0-1]|[1-2]\d|0[1-9]|[1-9]| [1-9])\<close> at the start
  of \<open>s\<close>, raises \<open>ValueError\<close> when this fails or leaves text unread, and again when
  the three numbers are not a date of the calendar.
\<close>

definition match_two :: "(char \<Rightarrow> bool) \<Rightarrow> (char \<Rightarrow> bool) \<Rightarrow> string \<Rightarrow> (int \<times> string) list" where
  "match_two p q s =
     (case s of
        a # b # r \<Rightarrow> if p a \<and> q b then [(int_of_digits (filter is_digit [a, b]), r)] else []
      | _ \<Rightarrow> [])"

definition match_one :: "(char \<Rightarrow> bool) \<Rightarrow> string \<Rightarrow> (int \<times> string) list" where
  "match_one p s = (case s of a # r \<Rightarrow> if p a then [(int_of_digits [a], r)] else [] | _ \<Rightarrow> [])"

definition match_month :: "string \<Rightarrow> (int \<times> string) list" where
  "match_month s =
     match_two (\<lambda>c. c = CHR ''1'') (\<lambda>c. c \<in> set ''012'') s
     @ match_two (\<lambda>c. c = CHR ''0'') (\<lambda>c. c \<in> set ''123456789'') s
     @ match_one (\<lambda>c. c \<in> set ''123456789'') s"

definition match_day :: "string \<Rightarrow> (int \<times> string) list" where
  "match_day s =
     match_two (\<lambda>c. c = CHR ''3'') (\<lambda>c. c \<in> set ''01'') s
     @ match_two (\<lambda>c. c \<in> set ''12'') is_digit s
     @ match_two (\<lambda>c. c = CHR ''0'') (\<lambda>c. c \<in> set ''123456789'') s
     @ match_one (\<lambda>c. c \<in> set ''123456789'') s
     @ match_two (\<lambda>c. c = CHR '' '') (\<lambda>c. c \<in> set ''123456789'') s"

definition strptime_ymd :: "string \<Rightarrow> error + (int \<times> int \<times> int)" where
  "strptime_ymd s =
     (if length s \<ge> 5 \<and> list_all is_digit (take 4 s) \<and> s ! 4 = CHR ''-'' then
        (let y = int_of_digits (take 4 s);
             found = concat (map (\<lambda>(m, r).
                        if starts_with ''-'' r
                        then map (\<lambda>(d, rest). (m, d, rest)) (take 1 (match_day (drop 1 r)))
                        else []) (match_month (drop 5 s)))
         in case found of
              [] \<Rightarrow> Inl ValueError
            | (m, d, rest) # _ \<Rightarrow>
                if rest \<noteq> [] then Inl ValueError
                else if y < 1 \<or> d > days_in_month y m then Inl ValueError
                else Inr (y, m, d))
      else Inl ValueError)"

text \<open>
  \<open>datetime.timestamp()\<close> of a naive \<open>datetime\<close> at midnight: the library reads it as
  local time.  The zone of the process is taken as a fixed offset \<open>tz\<close>, in seconds east
  of UTC.  The library also looks at the instant one day earlier, which must lie in the
  calendar, so 0001-01-01 raises \<open>ValueError\<close>.
\<close>

definition timestamp_of_local_midnight :: "int \<Rightarrow> int \<times> int \<times> int \<Rightarrow> error + int" where
  "timestamp_of_local_midnight tz ymd =
     (case ymd of (y, m, d) \<Rightarrow>
        if ymd2ord y m d < 2 then Inl ValueError
        else Inr ((ymd2ord y m d - 719163) * 86400 - tz))"

text \<open>\<open>parse_welsh_date\<close>.\<close>

definition parse_welsh_date :: "int \<Rightarrow> string \<Rightarrow> error + int" where
  "parse_welsh_date tz welsh_date =
     (case convert_welsh_date welsh_date of
        Inl e \<Rightarrow> Inl e
      | Inr s \<Rightarrow>
          (case strptime_ymd s of
             Inl e \<Rightarrow> Inl e
           | Inr ymd \<Rightarrow> timestamp_of_local_midnight tz ymd))"

text \<open>A number below 10000 and not negative, on two and on four digits.\<close>

definition digit_char :: "int \<Rightarrow> char" where
  "digit_char d = char_of (48 + d)"

definition pad2 :: "int \<Rightarrow> string" where
  "pad2 n = [digit_char (n div 10 mod 10), digit_char (n mod 10)]"

definition pad4 :: "int \<Rightarrow> string" where
  "pad4 n = [digit_char (n div 1000 mod 10), digit_char (n div 100 mod 10),
             digit_char (n div 10 mod 10), digit_char (n mod 10)]"

text \<open>
  \<open>%Y\<close> of \<open>strftime\<close>: four digits from year 1000 on; below, the C library of the
  platform decides whether the year is filled with zeros (\<open>padded\<close>) or not.
\<close>

definition strftime_year :: "bool \<Rightarrow> int \<Rightarrow> string" where
  "strftime_year padded y =
     (if padded \<or> y \<ge> 1000 then pad4 y
      else if y \<ge> 100 then digit_char (y div 100 mod 10) # pad2 y
      else if y \<ge> 10 then pad2 y
      else [digit_char y])"

text \<open>
  \<open>format_date\<close>: \<open>datetime.utcfromtimestamp(timestamp).strftime('%Y%m%d')\<close>.  The UTC
  day of the timestamp must lie in the calendar.
\<close>

definition format_date :: "bool \<Rightarrow> int \<Rightarrow> error + string" where
  "format_date padded timestamp =
     (let ordinal = timestamp div 86400 + 719163
      in if ordinal < 1 \<or> ordinal > 3652059 then Inl ValueError
         else (case ord2ymd ordinal of
                 (y, m, d) \<Rightarrow> Inr (strftime_year padded y @ pad2 m @ pad2 d)))"

section \<open>Payloads, collaborators and the canonical record\<close>

text \<open>
  The payloads are JSON objects; a field is \<open>None\<close> when the key is absent.  Every
  field that is present has the JSON type the program uses it at.
\<close>

record upstream_episode =
  ep_id :: "string option"
  ep_series_title :: "string option"
  ep_programme_title :: "string option"
  ep_full_billing :: "string option"
  ep_duration :: "int option"
  ep_mpg :: "string option"
  ep_thumbnail_url :: "string option"
  ep_series_id :: "string option"
  ep_last_tx :: "string option"
  ep_clic_aired :: "string option"

text \<open>A subtitle descriptor, with its keys \<open>"0"\<close> and \<open>"3"\<close>.\<close>

record subtitle_descriptor =
  key_0 :: "string option"
  key_3 :: "string option"

record player_configuration =
  cfg_filename :: "string option"
  cfg_poster :: "string option"
  cfg_subtitles :: "subtitle_descriptor list option"

record streaming_urls =
  hls :: "string option"
  dash :: "string option"
  fvp :: "string option"
  dvb :: "string option"

record series_details =
  full_prog_details :: "upstream_episode list option"
  other_progs_in_series :: "upstream_episode list option"

text \<open>
  What a fatal \<open>_download_json\<close> of the player configuration gives: the framework
  raises, or the body is a value Python takes as false (\<open>null\<close>, \<open>{}\<close>, ...), or it is
  a configuration object.
\<close>

datatype config_fetch = FetchFailed | NoData | Config player_configuration

text \<open>
  The collaborators of the extractor and the platform it runs on.  A download is a
  function of the URL.  \<open>download_streaming_urls\<close> is the download with
  \<open>fatal=False\<close>: \<open>None\<close> is a failed download or a body Python takes as false.  The
  two manifest parsers take the manifest URL, the video id and the format id; with
  \<open>fatal=False\<close> they return a list in every case.  A download of programme or series
  details is \<open>None\<close> when the framework raises.
\<close>

record 'f env =
  local_utc_offset :: int
  strftime_pads_year :: bool
  download_player_configuration :: "string \<Rightarrow> config_fetch"
  download_streaming_urls :: "string \<Rightarrow> streaming_urls option"
  extract_m3u8_formats :: "string option \<Rightarrow> string \<Rightarrow> string \<Rightarrow> 'f list"
  extract_mpd_formats :: "string option \<Rightarrow> string \<Rightarrow> string \<Rightarrow> 'f list"
  download_details :: "string \<Rightarrow> series_details option"

record subtitle_track =
  url :: string
  ext :: string

record 'f canonical_record =
  rec_id :: string
  rec_title :: string
  rec_description :: string
  rec_thumbnail :: "string option"
  rec_duration :: int
  rec_formats :: "'f list"
  rec_subtitles :: "(string \<times> subtitle_track list) list"
  rec_series :: string
  rec_series_id :: "string option"
  rec_season_number :: int
  rec_episode :: string
  rec_episode_number :: "int option"
  rec_episode_id :: string
  rec_timestamp :: "int option"
  rec_upload_date :: "string option"
  rec_release_timestamp :: "int option"
  rec_release_date :: "string option"
  rec_release_year :: "int option"
  rec_modified_timestamp :: "int option"
  rec_modified_date :: "string option"

definition BASE_URL :: string where
  "BASE_URL = ''https://www.s4c.cymru/clic/''"

definition API_URL :: string where
  "API_URL = ''https://www.s4c.cymru/df/''"

definition PLAYER_API_URL :: string where
  "PLAYER_API_URL = ''https://player-api.s4c-cdn.co.uk/player-configuration/prod''"

definition STREAMING_URL_API :: string where
  "STREAMING_URL_API = ''https://player-api.s4c-cdn.co.uk/streaming-urls/prod''"

text \<open>\<open>d.get(key, default)\<close> and the truth value of an optional string.\<close>

definition get_or :: "'a \<Rightarrow> 'a option \<Rightarrow> 'a" where
  "get_or fallback v = (case v of None \<Rightarrow> fallback | Some x \<Rightarrow> x)"

definition truthy :: "string option \<Rightarrow> bool" where
  "truthy v = (case v of None \<Rightarrow> False | Some s \<Rightarrow> s \<noteq> [])"

section \<open>Episode record builder\<close>

text \<open>
  The URL and the body of the loop of \<open>_fetch_and_validate_streaming_urls\<close> for one
  region.
\<close>

definition streaming_urls_url :: "string \<Rightarrow> string \<Rightarrow> string" where
  "streaming_urls_url region filename =
     STREAMING_URL_API @ ''?mode=od&application=clic&region='' @ region
     @ ''&extra=false&thirdParty=false&filename='' @ filename"

definition fetch_region :: "'f env \<Rightarrow> string \<Rightarrow> string \<Rightarrow> 'f list" where
  "fetch_region env filename region =
     (case download_streaming_urls env (streaming_urls_url region filename) of
        None \<Rightarrow> []
      | Some streaming_urls \<Rightarrow>
          extract_m3u8_formats env (hls streaming_urls) filename (''hls-'' @ region)
          @ extract_mpd_formats env (dash streaming_urls) filename (''dash-'' @ region)
          @ extract_mpd_formats env (fvp streaming_urls) filename (''fvp-'' @ region)
          @ extract_mpd_formats env (dvb streaming_urls) filename (''dvb-'' @ region))"

text \<open>\<open>_fetch_and_validate_streaming_urls\<close>: the loop over \<open>['WW', 'UK']\<close>.\<close>

definition fetch_and_validate_streaming_urls :: "'f env \<Rightarrow> string \<Rightarrow> string \<Rightarrow> 'f list" where
  "fetch_and_validate_streaming_urls env filename programme_id =
     foldl (\<lambda>formats region. formats @ fetch_region env filename region) [] [''WW'', ''UK'']"

text \<open>\<open>subtitles.setdefault(lang_code, []).append(track)\<close>, keys in insertion order.\<close>

fun setdefault_append ::
  "string \<Rightarrow> subtitle_track \<Rightarrow> (string \<times> subtitle_track list) list
   \<Rightarrow> (string \<times> subtitle_track list) list" where
  "setdefault_append k v [] = [(k, [v])]"
| "setdefault_append k v ((k', vs) # rest) =
     (if k' = k then (k', vs @ [v]) # rest else (k', vs) # setdefault_append k v rest)"

text \<open>The subtitle loop of \<open>_extract_episode_info\<close>.\<close>

definition collect_subtitles ::
  "subtitle_descriptor list \<Rightarrow> (string \<times> subtitle_track list) list" where
  "collect_subtitles subtitles_list =
     foldl (\<lambda>subtitles subtitle.
              (let lang_code = key_3 subtitle; vtt_url = key_0 subtitle
               in if truthy lang_code \<and> truthy vtt_url
                  then setdefault_append (the lang_code)
                         \<lparr>url = the vtt_url, ext = ''vtt''\<rparr> subtitles
                  else subtitles))
           [] subtitles_list"

text \<open>
  The date block of \<open>_extract_episode_info\<close> for one source field: the timestamp and
  the compact date, both unset when the field is absent or empty.
\<close>

definition parse_and_format :: "'f env \<Rightarrow> string option \<Rightarrow> error + (int option \<times> string option)" where
  "parse_and_format env field =
     (if truthy field then
        (case parse_welsh_date (local_utc_offset env) (the field) of
           Inl e \<Rightarrow> Inl e
         | Inr ts \<Rightarrow>
             (case format_date (strftime_pads_year env) ts of
                Inl e \<Rightarrow> Inl e
              | Inr date \<Rightarrow> Inr (Some ts, Some date)))
      else Inr (None, None))"

text \<open>The \<open>config_url\<close> of \<open>_extract_episode_info\<close>.\<close>

definition player_configuration_url :: "string \<Rightarrow> string" where
  "player_configuration_url programme_id =
     PLAYER_API_URL @ ''?programme_id='' @ programme_id
     @ ''&signed=0&lang=cy&mode=od&appId=clic&streamName=&env=live''"

text \<open>\<open>_extract_episode_info\<close>.\<close>

definition extract_episode_info ::
  "'f env \<Rightarrow> upstream_episode \<Rightarrow> string \<Rightarrow> error + 'f canonical_record" where
  "extract_episode_info env episode programme_id =
     (let series_title =
            (if truthy (ep_series_title episode) then the (ep_series_title episode)
             else get_or ''No Title'' (ep_programme_title episode));
          description = get_or ''No Description'' (ep_full_billing episode);
          duration = get_or 0 (ep_duration episode) * 60;
          (season_number, title) = extract_season_number_from_title series_title;
          programme_title = get_or [] (ep_programme_title episode);
          episode_number = extract_episode_number_from_title programme_title;
          (episode_number, programme_title) =
            (if episode_number = None then extract_episode_number_from_text programme_title
             else (episode_number, programme_title));
          episode_title = programme_title;
          episode_title = (if episode_title = [] then title else episode_title);
          mpg_filename = get_or [] (ep_mpg episode);
          episode_number =
            (if episode_number = None then extract_episode_number mpg_filename
             else episode_number);
          thumbnail_url = get_or [] (ep_thumbnail_url episode);
          episode_number =
            (if episode_number = None then extract_episode_number_from_thumbnail thumbnail_url
             else episode_number);
          episode_number =
            (if episode_number = None \<and> mpg_filename \<noteq> []
             then extract_episode_number_from_filename mpg_filename
             else episode_number);
          config_url = player_configuration_url programme_id
      in case download_player_configuration env config_url of
           FetchFailed \<Rightarrow> Inl DownloadError
         | NoData \<Rightarrow> Inl (ExtractorError ''Unable to fetch player configuration'')
         | Config config_data \<Rightarrow>
             if \<not> truthy (cfg_filename config_data)
             then Inl (ExtractorError ''Filename is missing in the player configuration'')
             else
               (let mpg_filename = the (cfg_filename config_data);
                    thumbnail = cfg_poster config_data;
                    formats = fetch_and_validate_streaming_urls env mpg_filename programme_id
                in if formats = []
                   then Inl (ExtractorError ''Unable to fetch valid streaming URLs'')
                   else
                     (let subtitles = collect_subtitles (get_or [] (cfg_subtitles config_data))
                      in case parse_and_format env (ep_last_tx episode) of
                           Inl e \<Rightarrow> Inl e
                         | Inr (release_timestamp, release_date) \<Rightarrow>
                             (let release_year =
                                    map_option (\<lambda>d. int_of_digits (take 4 d)) release_date
                              in case parse_and_format env (ep_clic_aired episode) of
                                   Inl e \<Rightarrow> Inl e
                                 | Inr (modified_timestamp, modified_date) \<Rightarrow>
                                     (let season_number = get_or 0 season_number
                                      in Inr \<lparr>rec_id = programme_id,
                                              rec_title = title,
                                              rec_description = description,
                                              rec_thumbnail = thumbnail,
                                              rec_duration = duration,
                                              rec_formats = formats,
                                              rec_subtitles = subtitles,
                                              rec_series = title,
                                              rec_series_id = ep_series_id episode,
                                              rec_season_number = season_number,
                                              rec_episode = episode_title,
                                              rec_episode_number = episode_number,
                                              rec_episode_id = programme_id,
                                              rec_timestamp = release_timestamp,
                                              rec_upload_date = release_date,
                                              rec_release_timestamp = release_timestamp,
                                              rec_release_date = release_date,
                                              rec_release_year = release_year,
                                              rec_modified_timestamp = modified_timestamp,
                                              rec_modified_date = modified_date\<rparr>)))))"

section \<open>Identifier resolvers\<close>

text \<open>The three extractor classes, as the targets a child reference can name.\<close>

datatype resolver = S4CClicSeries | S4CClicProgramme | S4CClicProgrammeIndividual

text \<open>What \<open>url_result\<close> builds.\<close>

record url_result =
  ref_url :: string
  ref_ie :: resolver
  ref_video_id :: string

text \<open>
  What a resolver returns: the record of one video, or what \<open>playlist_result\<close>
  builds from the entries, the playlist id and the playlist title.
\<close>

datatype 'f info =
    Video "'f canonical_record"
  | Playlist "url_result list" "string option" "string option"

text \<open>
  The list comprehension that builds the entries; \<open>episode["id"]\<close> raises
  \<open>KeyError\<close> on an episode without an id.
\<close>

fun make_entries :: "upstream_episode list \<Rightarrow> error + url_result list" where
  "make_entries [] = Inr []"
| "make_entries (episode # rest) =
     (case ep_id episode of
        None \<Rightarrow> Inl KeyError
      | Some i \<Rightarrow>
          (case make_entries rest of
             Inl e \<Rightarrow> Inl e
           | Inr entries \<Rightarrow>
               Inr (\<lparr>ref_url = BASE_URL @ ''programme/'' @ i,
                     ref_ie = S4CClicProgrammeIndividual,
                     ref_video_id = i\<rparr> # entries)))"

text \<open>
  \<open>try_get(series_data, lambda x: x['full_prog_details'][0]['series_title'], str)\<close>.
\<close>

definition playlist_title :: "series_details \<Rightarrow> string option" where
  "playlist_title series_data =
     (case full_prog_details series_data of
        Some (first # _) \<Rightarrow> ep_series_title first
      | _ \<Rightarrow> None)"

text \<open>\<open>series_data['full_prog_details'][0]\<close>.\<close>

definition first_prog :: "series_details \<Rightarrow> error + upstream_episode" where
  "first_prog series_data =
     (case full_prog_details series_data of
        None \<Rightarrow> Inl KeyError
      | Some [] \<Rightarrow> Inl IndexError
      | Some (first # _) \<Rightarrow> Inr first)"

text \<open>The playlist both expanding resolvers build from the series payload.\<close>

definition series_playlist :: "series_details \<Rightarrow> string option \<Rightarrow> error + 'f info" where
  "series_playlist series_data series_id =
     (case make_entries (get_or [] (full_prog_details series_data)
                         @ get_or [] (other_progs_in_series series_data)) of
        Inl e \<Rightarrow> Inl e
      | Inr entries \<Rightarrow> Inr (Playlist entries series_id (playlist_title series_data)))"

text \<open>The truth value of \<open>series_data.get('other_progs_in_series')\<close>.\<close>

definition has_other_progs :: "series_details \<Rightarrow> bool" where
  "has_other_progs series_data =
     (case other_progs_in_series series_data of None \<Rightarrow> False | Some l \<Rightarrow> l \<noteq> [])"

definition series_details_url :: "string \<Rightarrow> string" where
  "series_details_url series_id =
     API_URL @ ''series_details?lang=c&series_id='' @ series_id @ ''&show_prog_in_series=Y''"

definition full_prog_details_url :: "string \<Rightarrow> string" where
  "full_prog_details_url programme_id =
     API_URL @ ''full_prog_details?lang=c&programme_id='' @ programme_id
     @ ''&show_prog_in_series=Y''"

text \<open>\<open>S4CClicSeriesIE._extract_video_info\<close>.\<close>

definition series_extract_video_info :: "'f env \<Rightarrow> string \<Rightarrow> error + 'f info" where
  "series_extract_video_info env series_id =
     (case download_details env (series_details_url series_id) of
        None \<Rightarrow> Inl DownloadError
      | Some series_data \<Rightarrow>
          if \<not> has_other_progs series_data then
            (case first_prog series_data of
               Inl e \<Rightarrow> Inl e
             | Inr first \<Rightarrow>
                 (case extract_episode_info env first series_id of
                    Inl e \<Rightarrow> Inl e
                  | Inr r \<Rightarrow> Inr (Video r)))
          else series_playlist series_data (Some series_id))"

text \<open>
  \<open>S4CClicProgrammeIE._extract_video_info\<close>.  An absent \<open>series_id\<close> is formatted
  into the URL as \<open>None\<close>.
\<close>

definition programme_extract_video_info :: "'f env \<Rightarrow> string \<Rightarrow> error + 'f info" where
  "programme_extract_video_info env programme_id =
     (case download_details env (full_prog_details_url programme_id) of
        None \<Rightarrow> Inl DownloadError
      | Some programme_data \<Rightarrow>
          (case first_prog programme_data of
             Inl e \<Rightarrow> Inl e
           | Inr programme \<Rightarrow>
               (let series_id = ep_series_id programme
                in if \<not> has_other_progs programme_data then
                     (case extract_episode_info env programme programme_id of
                        Inl e \<Rightarrow> Inl e
                      | Inr r \<Rightarrow> Inr (Video r))
                   else
                     (case download_details env
                             (series_details_url (get_or ''None'' series_id)) of
                        None \<Rightarrow> Inl DownloadError
                      | Some series_data \<Rightarrow> series_playlist series_data series_id))))"

text \<open>\<open>S4CClicProgrammeIndividualIE._extract_video_info\<close>.\<close>

definition programme_individual_extract_video_info :: "'f env \<Rightarrow> string \<Rightarrow> error + 'f info" where
  "programme_individual_extract_video_info env programme_id =
     (case download_details env (full_prog_details_url programme_id) of
        None \<Rightarrow> Inl DownloadError
      | Some programme_data \<Rightarrow>
          (case first_prog programme_data of
             Inl e \<Rightarrow> Inl e
           | Inr programme \<Rightarrow>
               (case extract_episode_info env programme programme_id of
                  Inl e \<Rightarrow> Inl e
                | Inr r \<Rightarrow> Inr (Video r))))"

section \<open>Predicates of the specification\<close>

text \<open>
  A season marker as the specification words it: the word \<open>Cyfres\<close> or \<open>Season\<close> in any
  case, then optional whitespace, an optional \<open>X\<close>, and a digit.
\<close>

definition season_marker_at :: "string \<Rightarrow> bool" where
  "season_marker_at s =
     ((starts_with_ci ''cyfres'' s \<or> starts_with_ci ''season'' s) \<and>
      (let r = dropWhile is_space (drop 6 s);
           r' = (if r \<noteq> [] \<and> to_lower (hd r) = CHR ''x'' then tl r else r)
       in r' \<noteq> [] \<and> is_digit (hd r')))"

text \<open>The title has a season marker somewhere.\<close>

fun contains_season_marker :: "string \<Rightarrow> bool" where
  "contains_season_marker [] = False"
| "contains_season_marker (c # cs) = (season_marker_at (c # cs) \<or> contains_season_marker cs)"

text \<open>
  The precedence of the specification: the sources of an episode number in their order,
  and the first of them that yields a number.
\<close>

fun first_success :: "'a option list \<Rightarrow> 'a option" where
  "first_success [] = None"
| "first_success (x # xs) = (case x of Some v \<Rightarrow> Some v | None \<Rightarrow> first_success xs)"

definition episode_number_by_precedence :: "upstream_episode \<Rightarrow> int option" where
  "episode_number_by_precedence episode =
     first_success
       [extract_episode_number_from_title (get_or [] (ep_programme_title episode)),
        fst (extract_episode_number_from_text (get_or [] (ep_programme_title episode))),
        extract_episode_number (get_or [] (ep_mpg episode)),
        extract_episode_number_from_thumbnail (get_or [] (ep_thumbnail_url episode)),
        extract_episode_number_from_filename (get_or [] (ep_mpg episode))]"

text \<open>
  The series title the builder works on: \<open>series_title\<close> when it is there and not
  empty, else \<open>programme_title\<close>, else \<open>No Title\<close>.
\<close>

definition effective_series_title :: "upstream_episode \<Rightarrow> string" where
  "effective_series_title episode =
     (if truthy (ep_series_title episode) then the (ep_series_title episode)
      else get_or ''No Title'' (ep_programme_title episode))"

text \<open>
  The error kinds of the specification.  The source raises \<open>ExtractorError\<close> for all
  of them; the messages tell them apart.
\<close>

definition is_UpstreamFetchError :: "error \<Rightarrow> bool" where
  "is_UpstreamFetchError e =
     (e = ExtractorError ''Unable to fetch player configuration''
      \<or> e = ExtractorError ''Filename is missing in the player configuration'')"

definition is_StreamingUnavailableError :: "error \<Rightarrow> bool" where
  "is_StreamingUnavailableError e = (e = ExtractorError ''Unable to fetch valid streaming URLs'')"

text \<open>
  A subtitle descriptor that has both a language code and a URL, absent and empty
  counting as missing; and the tracks of one language, in the order of the descriptors.
\<close>

definition valid_descriptor :: "subtitle_descriptor \<Rightarrow> bool" where
  "valid_descriptor d = (truthy (key_3 d) \<and> truthy (key_0 d))"

definition tracks_for :: "string \<Rightarrow> subtitle_descriptor list \<Rightarrow> subtitle_track list" where
  "tracks_for lang ds =
     map (\<lambda>d. \<lparr>url = the (key_0 d), ext = ''vtt''\<rparr>)
         (filter (\<lambda>d. valid_descriptor d \<and> key_3 d = Some lang) ds)"

section \<open>Example payloads\<close>

text \<open>
  A platform on UTC whose streaming service answers for the region UK only, an
  episode with markers and one without, and their variants.
\<close>

definition example_env :: "string env" where
  "example_env =
     \<lparr>local_utc_offset = 0,
      strftime_pads_year = False,
      download_player_configuration =
        (\<lambda>u. Config \<lparr>cfg_filename = Some ''rownd.mp4'', cfg_poster = None,
                       cfg_subtitles = Some [\<lparr>key_0 = Some ''a.vtt'', key_3 = Some ''cym''\<rparr>,
                                             \<lparr>key_0 = None, key_3 = Some ''eng''\<rparr>,
                                             \<lparr>key_0 = Some ''b.vtt'', key_3 = Some ''eng''\<rparr>,
                                             \<lparr>key_0 = Some ''c.vtt'', key_3 = Some ''cym''\<rparr>]\<rparr>),
      download_streaming_urls =
        (\<lambda>u. if u = streaming_urls_url ''UK'' ''rownd.mp4''
             then Some \<lparr>hls = Some ''https://cdn/uk.m3u8'', dash = None, fvp = None, dvb = None\<rparr>
             else None),
      extract_m3u8_formats = (\<lambda>u f i. case u of None \<Rightarrow> [] | Some x \<Rightarrow> [i]),
      extract_mpd_formats = (\<lambda>u f i. case u of None \<Rightarrow> [] | Some x \<Rightarrow> [i]),
      download_details = (\<lambda>u. None)\<rparr>"

definition example_episode :: upstream_episode where
  "example_episode =
     \<lparr>ep_id = Some ''123'', ep_series_title = Some ''Rownd a Rownd - Cyfres 23'',
      ep_programme_title = Some ''3. Teitl'', ep_full_billing = None, ep_duration = Some 30,
      ep_mpg = Some ''rownd_E5.mpg'', ep_thumbnail_url = None, ep_series_id = Some ''77'',
      ep_last_tx = Some ''15 Ionawr 2021'', ep_clic_aired = None\<rparr>"

definition plain_episode :: upstream_episode where
  "plain_episode =
     \<lparr>ep_id = Some ''124'', ep_series_title = Some ''Pobol y Cwm'',
      ep_programme_title = None, ep_full_billing = None, ep_duration = None,
      ep_mpg = Some ''pobol.mpg'', ep_thumbnail_url = Some ''https://cdn/pobol.jpg'',
      ep_series_id = None, ep_last_tx = None, ep_clic_aired = None\<rparr>"

definition example_env_no_config :: "string env" where
  "example_env_no_config = example_env\<lparr>download_player_configuration := (\<lambda>u. NoData)\<rparr>"

definition example_env_no_streams :: "string env" where
  "example_env_no_streams = example_env\<lparr>download_streaming_urls := (\<lambda>u. None)\<rparr>"

definition example_series :: series_details where
  "example_series =
     \<lparr>full_prog_details = Some [example_episode],
      other_progs_in_series = Some [plain_episode, example_episode]\<rparr>"

definition example_single :: series_details where
  "example_single = \<lparr>full_prog_details = Some [example_episode], other_progs_in_series = Some []\<rparr>"

definition example_env_series :: "string env" where
  "example_env_series = example_env\<lparr>download_details := (\<lambda>u. Some example_series)\<rparr>"

definition example_env_single :: "string env" where
  "example_env_single = example_env\<lparr>download_details := (\<lambda>u. Some example_single)\<rparr>"

section \<open>Searching a text\<close>

lemma re_search_None_iff:
  "re_search m left s = None \<longleftrightarrow> (\<forall>i \<le> length s. m (left @ take i s) (drop i s) = None)"
proof (induction s arbitrary: left)
  case Nil
  then show ?case by simp
next
  case (Cons c cs)
  show ?case
  proof (cases "m left (c # cs)")
    case None
    have "(\<forall>i \<le> length (c # cs). m (left @ take i (c # cs)) (drop i (c # cs)) = None)
          \<longleftrightarrow> (\<forall>i \<le> length cs. m ((left @ [c]) @ take i cs) (drop i cs) = None)"
    proof
      assume a: "\<forall>i \<le> length (c # cs). m (left @ take i (c # cs)) (drop i (c # cs)) = None"
      show "\<forall>i \<le> length cs. m ((left @ [c]) @ take i cs) (drop i cs) = None"
      proof (intro allI impI)
        fix i assume "i \<le> length cs"
        then have "m (left @ take (Suc i) (c # cs)) (drop (Suc i) (c # cs)) = None"
          using a by (metis Suc_le_mono length_Cons)
        then show "m ((left @ [c]) @ take i cs) (drop i cs) = None" by simp
      qed
    next
      assume a: "\<forall>i \<le> length cs. m ((left @ [c]) @ take i cs) (drop i cs) = None"
      show "\<forall>i \<le> length (c # cs). m (left @ take i (c # cs)) (drop i (c # cs)) = None"
      proof (intro allI impI)
        fix i assume i: "i \<le> length (c # cs)"
        show "m (left @ take i (c # cs)) (drop i (c # cs)) = None"
        proof (cases i)
          case 0
          then show ?thesis using None by simp
        next
          case (Suc j)
          then have "j \<le> length cs" using i by simp
          then show ?thesis using a Suc by simp
        qed
      qed
    qed
    then show ?thesis using None Cons.IH [of "left @ [c]"] by simp
  next
    case (Some r)
    then have "re_search m left (c # cs) \<noteq> None" by simp
    moreover have "\<not> (\<forall>i \<le> length (c # cs). m (left @ take i (c # cs)) (drop i (c # cs)) = None)"
      using Some by (metis append_Nil2 drop0 le0 option.distinct(1) take0)
    ultimately show ?thesis by blast
  qed
qed

section \<open>The free-text episode token\<close>

text \<open>
  C2, as the claim states it, fails: in \<open>programme_E12_hd\<close> the \<open>E\<close> follows an
  underscore, which is a word character, so there is no word boundary before it and
  the search finds nothing.
\<close>

theorem extract_episode_number_underscore_not_12:
  "extract_episode_number ''programme_E12_hd'' \<noteq> Some 12"
  by code_simp

text \<open>
  C2, amended: the free-text extractor returns no number for \<open>programme_E12_hd\<close>, and
  returns 12 when characters that are not word characters surround the token, as in
  \<open>programme-E12-hd\<close>.
\<close>

theorem extract_episode_number_word_bounded:
  "extract_episode_number ''programme_E12_hd'' = None
   \<and> extract_episode_number ''programme-E12-hd'' = Some 12"
  by code_simp

section \<open>The season marker\<close>

lemma match_season_word_marker:
  "match_season_word s \<noteq> None \<Longrightarrow> season_marker_at s"
  unfolding match_season_word_def season_marker_at_def Let_def
  by (auto split: if_splits simp: takeWhile_eq_Nil_iff)

lemma season_marker_at_Nil: "\<not> season_marker_at []"
  by (simp add: season_marker_at_def starts_with_ci_def)

lemma contains_season_marker_drop:
  "season_marker_at (drop i t) \<Longrightarrow> contains_season_marker t"
proof (induction t arbitrary: i)
  case Nil
  then show ?case by (simp add: season_marker_at_Nil)
next
  case (Cons c cs)
  then show ?case by (cases i) auto
qed

lemma no_marker_without_separators:
  assumes "\<not> contains_season_marker t"
  shows "match_season_without_separators (drop i t) = None"
proof -
  have "\<not> season_marker_at (drop i t)"
    using assms contains_season_marker_drop by blast
  then have "match_season_word (drop i t) = None"
    using match_season_word_marker by blast
  then show ?thesis by (simp add: match_season_without_separators_def)
qed

lemma no_marker_with_separators:
  assumes "\<not> contains_season_marker t"
  shows "match_season_with_separators (drop i t) = None"
proof -
  have "dropWhile is_season_sep (drop i t)
        = drop (length (takeWhile is_season_sep (drop i t)) + i) t"
    by (metis dropWhile_eq_drop drop_drop)
  moreover have "\<not> season_marker_at (drop (length (takeWhile is_season_sep (drop i t)) + i) t)"
    using assms contains_season_marker_drop by blast
  ultimately have "match_season_word (dropWhile is_season_sep (drop i t)) = None"
    using match_season_word_marker by metis
  then show ?thesis by (simp add: match_season_with_separators_def)
qed

lemma no_marker_unchanged:
  assumes "\<not> contains_season_marker t"
  shows "extract_season_number_from_title t = (None, t)"
proof -
  have 1: "re_search (\<lambda>left. match_season_with_separators) [] t = None"
    by (simp add: re_search_None_iff no_marker_with_separators [OF assms])
  have 2: "re_search (\<lambda>left. match_season_without_separators) [] t = None"
    by (simp add: re_search_None_iff no_marker_without_separators [OF assms])
  show ?thesis by (simp add: extract_season_number_from_title_def 1 2)
qed

text \<open>
  C8: the season extractor returns season 23 and the title \<open>Rownd a Rownd\<close> for
  \<open>Rownd a Rownd - Cyfres 23\<close>, and for every title without a season marker it returns
  no season number and the title as it was.
\<close>

theorem extract_season_number_from_title_spec:
  "extract_season_number_from_title ''Rownd a Rownd - Cyfres 23'' = (Some 23, ''Rownd a Rownd'')
   \<and> (\<forall>title. \<not> contains_season_marker title \<longrightarrow>
          extract_season_number_from_title title = (None, title))"
proof
  show "extract_season_number_from_title ''Rownd a Rownd - Cyfres 23''
        = (Some 23, ''Rownd a Rownd'')"
    by code_simp
  show "\<forall>title. \<not> contains_season_marker title \<longrightarrow>
          extract_season_number_from_title title = (None, title)"
    using no_marker_unchanged by blast
qed

theorem extract_season_number_from_title_spec_witness:
  "\<not> contains_season_marker ''Pobol y Cwm''
   \<and> extract_season_number_from_title ''Pobol y Cwm'' = (None, ''Pobol y Cwm'')"
proof -
  have h: "\<not> contains_season_marker ''Pobol y Cwm''" by code_simp
  show ?thesis using h extract_season_number_from_title_spec by blast
qed

section \<open>Dates\<close>

text \<open>
  C3: the code does not read the date as UTC midnight.  \<open>parse_welsh_date\<close> returns
  the instant of local midnight: for \<open>15 Ionawr 2021\<close> this is 1610668800, the
  timestamp of 2021-01-15T00:00:00Z, less the offset of the local zone, so one hour
  east of UTC it is 1610665200, which is 2021-01-14T23:00:00Z.
\<close>

theorem parse_welsh_date_reads_local_midnight:
  "parse_welsh_date tz ''15 Ionawr 2021'' = Inr (1610668800 - tz)
   \<and> parse_welsh_date 3600 ''15 Ionawr 2021'' = Inr 1610665200"
proof -
  have c: "convert_welsh_date ''15 Ionawr 2021'' = Inr ''2021-01-15''" by code_simp
  have p: "strptime_ymd ''2021-01-15'' = Inr (2021, 1, 15)" by code_simp
  have o: "ymd2ord 2021 1 15 = 737805" by code_simp
  have "parse_welsh_date t ''15 Ionawr 2021'' = Inr (1610668800 - t)" for t
    by (simp add: parse_welsh_date_def c p timestamp_of_local_midnight_def o)
  then show ?thesis by simp
qed

text \<open>
  C4: parsing and then formatting does not keep the month.  One hour east of UTC the
  date \<open>1 Gorffennaf 2021\<close> is parsed to 1625094000, which is 2021-06-30T23:00:00Z, and
  \<open>format_date\<close>, which reads the timestamp in UTC, gives \<open>20210630\<close>: the middle two
  characters are \<open>06\<close>, not the \<open>07\<close> of the table.
\<close>

theorem parse_then_format_previous_day:
  "parse_welsh_date 3600 ''1 Gorffennaf 2021'' = Inr 1625094000
   \<and> format_date padded 1625094000 = Inr ''20210630''"
proof -
  have a: "parse_welsh_date 3600 ''1 Gorffennaf 2021'' = Inr 1625094000" by code_simp
  have b: "format_date True 1625094000 = Inr ''20210630''" by code_simp
  have c: "format_date False 1625094000 = Inr ''20210630''" by code_simp
  show ?thesis using a b c by (cases padded) simp_all
qed

section \<open>What the builder returns\<close>

lemma filename_Nil: "extract_episode_number_from_filename [] = None"
  by code_simp

lemma extract_episode_info_Inr:
  assumes "extract_episode_info env episode programme_id = Inr r"
  shows "rec_episode_number r = episode_number_by_precedence episode"
    and "rec_season_number r = get_or 0 (fst (extract_season_number_from_title (effective_series_title episode)))"
    and "rec_title r = snd (extract_season_number_from_title (effective_series_title episode))"
    and "rec_episode r =
          (let pt = get_or [] (ep_programme_title episode);
               working = (if extract_episode_number_from_title pt = None
                          then snd (extract_episode_number_from_text pt) else pt)
           in if working = [] then rec_title r else working)"
    and "\<exists>c. download_player_configuration env (player_configuration_url programme_id) = Config c
             \<and> truthy (cfg_filename c)
             \<and> rec_formats r = fetch_and_validate_streaming_urls env (the (cfg_filename c)) programme_id
             \<and> rec_formats r \<noteq> []
             \<and> rec_subtitles r = collect_subtitles (get_or [] (cfg_subtitles c))"
  using assms
  unfolding extract_episode_info_def episode_number_by_precedence_def effective_series_title_def
  by (auto simp: Let_def filename_Nil split: prod.splits config_fetch.splits if_splits sum.splits option.splits)

lemma parse_welsh_date_error:
  "parse_welsh_date tz w = Inl e \<Longrightarrow> e = KeyError \<or> e = ValueError"
  unfolding parse_welsh_date_def convert_welsh_date_def strptime_ymd_def
    timestamp_of_local_midnight_def Let_def
  by (auto split: sum.splits list.splits option.splits if_splits prod.splits)

lemma format_date_error:
  "format_date padded ts = Inl e \<Longrightarrow> e = ValueError"
  unfolding format_date_def Let_def
  by (auto split: if_splits prod.splits)

lemma parse_and_format_error:
  "parse_and_format env field = Inl e \<Longrightarrow> e = KeyError \<or> e = ValueError"
  unfolding parse_and_format_def
  by (auto split: if_splits sum.splits dest: parse_welsh_date_error format_date_error)

lemma extract_episode_info_stages:
  fixes env :: "'f env" and episode :: upstream_episode and programme_id :: string
  defines "res \<equiv> extract_episode_info env episode programme_id"
  defines "cfg \<equiv> download_player_configuration env (player_configuration_url programme_id)"
  shows "cfg = FetchFailed \<Longrightarrow> res = Inl DownloadError"
    and "cfg = NoData \<Longrightarrow> res = Inl (ExtractorError ''Unable to fetch player configuration'')"
    and "cfg = Config c \<Longrightarrow> \<not> truthy (cfg_filename c) \<Longrightarrow>
           res = Inl (ExtractorError ''Filename is missing in the player configuration'')"
    and "cfg = Config c \<Longrightarrow> truthy (cfg_filename c) \<Longrightarrow>
           fetch_and_validate_streaming_urls env (the (cfg_filename c)) programme_id = [] \<Longrightarrow>
           res = Inl (ExtractorError ''Unable to fetch valid streaming URLs'')"
    and "cfg = Config c \<Longrightarrow> truthy (cfg_filename c) \<Longrightarrow>
           fetch_and_validate_streaming_urls env (the (cfg_filename c)) programme_id \<noteq> [] \<Longrightarrow>
           (\<exists>r. res = Inr r) \<or> res = Inl KeyError \<or> res = Inl ValueError"
proof -
  show "cfg = FetchFailed \<Longrightarrow> res = Inl DownloadError"
    unfolding res_def cfg_def extract_episode_info_def by (simp add: Let_def split_def)
  show "cfg = NoData \<Longrightarrow> res = Inl (ExtractorError ''Unable to fetch player configuration'')"
    unfolding res_def cfg_def extract_episode_info_def by (simp add: Let_def split_def)
  show "cfg = Config c \<Longrightarrow> \<not> truthy (cfg_filename c) \<Longrightarrow>
           res = Inl (ExtractorError ''Filename is missing in the player configuration'')"
    unfolding res_def cfg_def extract_episode_info_def by (simp add: Let_def split_def)
  show "cfg = Config c \<Longrightarrow> truthy (cfg_filename c) \<Longrightarrow>
           fetch_and_validate_streaming_urls env (the (cfg_filename c)) programme_id = [] \<Longrightarrow>
           res = Inl (ExtractorError ''Unable to fetch valid streaming URLs'')"
    unfolding res_def cfg_def extract_episode_info_def by (simp add: Let_def split_def)
  show "cfg = Config c \<Longrightarrow> truthy (cfg_filename c) \<Longrightarrow>
           fetch_and_validate_streaming_urls env (the (cfg_filename c)) programme_id \<noteq> [] \<Longrightarrow>
           (\<exists>r. res = Inr r) \<or> res = Inl KeyError \<or> res = Inl ValueError"
  proof -
    assume a: "cfg = Config c" "truthy (cfg_filename c)"
      "fetch_and_validate_streaming_urls env (the (cfg_filename c)) programme_id \<noteq> []"
    show ?thesis
    proof (cases "parse_and_format env (ep_last_tx episode)")
      case (Inl e)
      then have "res = Inl e"
        using a unfolding res_def cfg_def extract_episode_info_def by (simp add: Let_def split_def)
      then show ?thesis using parse_and_format_error [OF Inl] by auto
    next
      case release: (Inr rel)
      show ?thesis
      proof (cases "parse_and_format env (ep_clic_aired episode)")
        case (Inl e)
        then have "res = Inl e"
          using a release unfolding res_def cfg_def extract_episode_info_def
          by (simp add: Let_def split_def)
        then show ?thesis using parse_and_format_error [OF Inl] by auto
      next
        case (Inr modi)
        then have "\<exists>r. res = Inr r"
          using a release unfolding res_def cfg_def extract_episode_info_def
          by (simp add: Let_def split_def)
        then show ?thesis by blast
      qed
    qed
  qed
qed


section \<open>Episode number and season number\<close>



lemma extract_episode_number_from_title_Nil: "extract_episode_number_from_title [] = None"
  by code_simp

lemma extract_episode_number_from_text_Nil: "extract_episode_number_from_text [] = (None, [])"
  by code_simp

lemma no_marker_No_Title: "\<not> contains_season_marker ''No Title''"
  by code_simp

text \<open>
  C9: when \<open>programme_title\<close> is absent or empty, the \<open>mpg\<close> filename and the thumbnail
  URL yield no episode number in any of the three searches, and \<open>series_title\<close> has no
  season marker, the record has season number 0 and no episode number.
\<close>

theorem defaults_without_markers:
  assumes pt: "ep_programme_title episode = None \<or> ep_programme_title episode = Some []"
    and mpg1: "extract_episode_number (get_or [] (ep_mpg episode)) = None"
    and mpg2: "extract_episode_number_from_filename (get_or [] (ep_mpg episode)) = None"
    and thumb: "extract_episode_number_from_thumbnail (get_or [] (ep_thumbnail_url episode)) = None"
    and st: "\<forall>s. ep_series_title episode = Some s \<longrightarrow> \<not> contains_season_marker s"
    and ok: "extract_episode_info env episode programme_id = Inr r"
  shows "rec_season_number r = 0 \<and> rec_episode_number r = None"
proof -
  have pt': "get_or [] (ep_programme_title episode) = []"
    using pt by (auto simp: get_or_def)
  have "episode_number_by_precedence episode = None"
    by (simp add: episode_number_by_precedence_def pt' mpg1 mpg2 thumb
        extract_episode_number_from_title_Nil extract_episode_number_from_text_Nil)
  then have e: "rec_episode_number r = None"
    using extract_episode_info_Inr(1) [OF ok] by simp
  have "\<not> contains_season_marker (effective_series_title episode)"
  proof (cases "truthy (ep_series_title episode)")
    case True
    then show ?thesis using st
      by (auto simp: effective_series_title_def truthy_def split: option.splits)
  next
    case False
    then show ?thesis using pt no_marker_No_Title
      by (auto simp: effective_series_title_def get_or_def)
  qed
  then have "fst (extract_season_number_from_title (effective_series_title episode)) = None"
    using no_marker_unchanged by simp
  then have "rec_season_number r = 0"
    using extract_episode_info_Inr(2) [OF ok] by (simp add: get_or_def)
  then show ?thesis using e by simp
qed

lemma plain_ok: "\<not> isl (extract_episode_info example_env plain_episode ''124'')"
  by code_simp

theorem defaults_without_markers_witness:
  "\<exists>r. extract_episode_info example_env plain_episode ''124'' = Inr r
       \<and> (ep_programme_title plain_episode = None \<or> ep_programme_title plain_episode = Some [])
       \<and> extract_episode_number (get_or [] (ep_mpg plain_episode)) = None
       \<and> extract_episode_number_from_filename (get_or [] (ep_mpg plain_episode)) = None
       \<and> extract_episode_number_from_thumbnail (get_or [] (ep_thumbnail_url plain_episode)) = None
       \<and> (\<forall>s. ep_series_title plain_episode = Some s \<longrightarrow> \<not> contains_season_marker s)
       \<and> rec_season_number r = 0 \<and> rec_episode_number r = None"
proof -
  obtain r where r: "extract_episode_info example_env plain_episode ''124'' = Inr r"
    using plain_ok by (cases "extract_episode_info example_env plain_episode ''124''") auto
  have pt: "ep_programme_title plain_episode = None \<or> ep_programme_title plain_episode = Some []"
    by (simp add: plain_episode_def)
  have mpg1: "extract_episode_number (get_or [] (ep_mpg plain_episode)) = None" by code_simp
  have mpg2: "extract_episode_number_from_filename (get_or [] (ep_mpg plain_episode)) = None"
    by code_simp
  have thumb: "extract_episode_number_from_thumbnail (get_or [] (ep_thumbnail_url plain_episode)) = None"
    by code_simp
  have m: "\<not> contains_season_marker ''Pobol y Cwm''" by code_simp
  have st: "\<forall>s. ep_series_title plain_episode = Some s \<longrightarrow> \<not> contains_season_marker s"
    using m by (simp add: plain_episode_def)
  show ?thesis using defaults_without_markers [OF pt mpg1 mpg2 thumb st r] r pt mpg1 mpg2 thumb st by blast
qed

section \<open>Errors of the builder\<close>

text \<open>
  C6: building a record fails with \<open>UpstreamFetchError\<close> exactly when the download of
  the player configuration returns no data, or returns a configuration whose
  \<open>filename\<close> is absent or empty.  The result is then the error, with no record.
\<close>

theorem upstream_fetch_error_iff:
  "(\<exists>e. extract_episode_info env episode programme_id = Inl e \<and> is_UpstreamFetchError e)
   \<longleftrightarrow> (download_player_configuration env (player_configuration_url programme_id) = NoData
        \<or> (\<exists>c. download_player_configuration env (player_configuration_url programme_id) = Config c
                \<and> \<not> truthy (cfg_filename c)))"
proof (cases "download_player_configuration env (player_configuration_url programme_id)")
  case FetchFailed
  then show ?thesis
    using extract_episode_info_stages(1) [of env programme_id episode]
    by (simp add: is_UpstreamFetchError_def)
next
  case NoData
  then show ?thesis
    using extract_episode_info_stages(2) [of env programme_id episode]
    by (simp add: is_UpstreamFetchError_def)
next
  case (Config c)
  show ?thesis
  proof (cases "truthy (cfg_filename c)")
    case False
    then show ?thesis
      using Config extract_episode_info_stages(3) [of env programme_id c episode]
      by (simp add: is_UpstreamFetchError_def)
  next
    case True
    show ?thesis
    proof (cases "fetch_and_validate_streaming_urls env (the (cfg_filename c)) programme_id = []")
      case True
      then show ?thesis
        using Config \<open>truthy (cfg_filename c)\<close>
          extract_episode_info_stages(4) [of env programme_id c episode]
        by (simp add: is_UpstreamFetchError_def)
    next
      case False
      then show ?thesis
        using Config \<open>truthy (cfg_filename c)\<close>
          extract_episode_info_stages(5) [of env programme_id c episode]
        by (auto simp: is_UpstreamFetchError_def)
    qed
  qed
qed

theorem upstream_fetch_error_iff_witness:
  "download_player_configuration example_env_no_config (player_configuration_url ''123'') = NoData
   \<and> (\<exists>e. extract_episode_info example_env_no_config example_episode ''123'' = Inl e
           \<and> is_UpstreamFetchError e)
   \<and> \<not> (\<exists>e. extract_episode_info example_env example_episode ''123'' = Inl e
             \<and> is_UpstreamFetchError e)"
proof -
  have a: "download_player_configuration example_env_no_config (player_configuration_url ''123'') = NoData"
    by (simp add: example_env_no_config_def)
  have b: "download_player_configuration example_env (player_configuration_url ''123'')
           = Config \<lparr>cfg_filename = Some ''rownd.mp4'', cfg_poster = None,
                       cfg_subtitles = Some [\<lparr>key_0 = Some ''a.vtt'', key_3 = Some ''cym''\<rparr>,
                                             \<lparr>key_0 = None, key_3 = Some ''eng''\<rparr>,
                                             \<lparr>key_0 = Some ''b.vtt'', key_3 = Some ''eng''\<rparr>,
                                             \<lparr>key_0 = Some ''c.vtt'', key_3 = Some ''cym''\<rparr>]\<rparr>"
    by (simp add: example_env_def)
  show ?thesis
    using a b upstream_fetch_error_iff [of example_env_no_config example_episode "''123''"]
      upstream_fetch_error_iff [of example_env example_episode "''123''"]
    by (simp add: truthy_def)
qed

lemma fetch_and_validate_streaming_urls_regions:
  "fetch_and_validate_streaming_urls env filename programme_id
   = fetch_region env filename ''WW'' @ fetch_region env filename ''UK''"
  by (simp add: fetch_and_validate_streaming_urls_def)

lemma fetch_region_failed:
  "download_streaming_urls env (streaming_urls_url region filename) = None
   \<Longrightarrow> fetch_region env filename region = []"
  by (simp add: fetch_region_def)

text \<open>
  C7: the formats are those of region WW followed by those of region UK; a region
  whose download fails adds nothing and the other region is still asked, so the result
  is what the other region gives.  Building a record fails with
  \<open>StreamingUnavailableError\<close> exactly when the configuration names a file and the two
  regions together give no format.
\<close>

theorem streaming_regions_and_unavailable:
  "fetch_and_validate_streaming_urls env filename programme_id
     = fetch_region env filename ''WW'' @ fetch_region env filename ''UK''
   \<and> (download_streaming_urls env (streaming_urls_url ''WW'' filename) = None
        \<longrightarrow> fetch_and_validate_streaming_urls env filename programme_id
            = fetch_region env filename ''UK'')
   \<and> (download_streaming_urls env (streaming_urls_url ''UK'' filename) = None
        \<longrightarrow> fetch_and_validate_streaming_urls env filename programme_id
            = fetch_region env filename ''WW'')
   \<and> ((\<exists>e. extract_episode_info env episode programme_id = Inl e
             \<and> is_StreamingUnavailableError e)
        \<longleftrightarrow> (\<exists>c. download_player_configuration env (player_configuration_url programme_id)
                     = Config c
                 \<and> truthy (cfg_filename c)
                 \<and> fetch_and_validate_streaming_urls env (the (cfg_filename c)) programme_id = []))"
proof -
  have iff: "(\<exists>e. extract_episode_info env episode programme_id = Inl e
             \<and> is_StreamingUnavailableError e)
        \<longleftrightarrow> (\<exists>c. download_player_configuration env (player_configuration_url programme_id)
                     = Config c
                 \<and> truthy (cfg_filename c)
                 \<and> fetch_and_validate_streaming_urls env (the (cfg_filename c)) programme_id = [])"
  proof (cases "download_player_configuration env (player_configuration_url programme_id)")
    case FetchFailed
    then show ?thesis
      using extract_episode_info_stages(1) [of env programme_id episode]
      by (simp add: is_StreamingUnavailableError_def)
  next
    case NoData
    then show ?thesis
      using extract_episode_info_stages(2) [of env programme_id episode]
      by (simp add: is_StreamingUnavailableError_def)
  next
    case (Config c)
    show ?thesis
    proof (cases "truthy (cfg_filename c)")
      case False
      then show ?thesis
        using Config extract_episode_info_stages(3) [of env programme_id c episode]
        by (simp add: is_StreamingUnavailableError_def)
    next
      case True
      show ?thesis
      proof (cases "fetch_and_validate_streaming_urls env (the (cfg_filename c)) programme_id = []")
        case True
        then show ?thesis
          using Config \<open>truthy (cfg_filename c)\<close>
            extract_episode_info_stages(4) [of env programme_id c episode]
          by (simp add: is_StreamingUnavailableError_def)
      next
        case False
        then show ?thesis
          using Config \<open>truthy (cfg_filename c)\<close>
            extract_episode_info_stages(5) [of env programme_id c episode]
          by (auto simp: is_StreamingUnavailableError_def)
      qed
    qed
  qed
  show ?thesis
    using iff fetch_region_failed [of env _ filename]
    by (simp add: fetch_and_validate_streaming_urls_regions)
qed

theorem streaming_regions_and_unavailable_witness:
  "download_streaming_urls example_env (streaming_urls_url ''WW'' ''rownd.mp4'') = None
   \<and> fetch_and_validate_streaming_urls example_env ''rownd.mp4'' ''123''
       = fetch_region example_env ''rownd.mp4'' ''UK''
   \<and> fetch_region example_env ''rownd.mp4'' ''UK'' = [''hls-UK'']
   \<and> \<not> (\<exists>e. extract_episode_info example_env example_episode ''123'' = Inl e
             \<and> is_StreamingUnavailableError e)
   \<and> download_streaming_urls example_env_no_streams (streaming_urls_url ''UK'' ''rownd.mp4'') = None
   \<and> (\<exists>e. extract_episode_info example_env_no_streams example_episode ''123'' = Inl e
           \<and> is_StreamingUnavailableError e)"
proof -
  have ww: "download_streaming_urls example_env (streaming_urls_url ''WW'' ''rownd.mp4'') = None"
    by code_simp
  have uk: "fetch_region example_env ''rownd.mp4'' ''UK'' = [''hls-UK'']"
    by code_simp
  have cfg: "download_player_configuration example_env (player_configuration_url ''123'')
           = Config \<lparr>cfg_filename = Some ''rownd.mp4'', cfg_poster = None,
                       cfg_subtitles = Some [\<lparr>key_0 = Some ''a.vtt'', key_3 = Some ''cym''\<rparr>,
                                             \<lparr>key_0 = None, key_3 = Some ''eng''\<rparr>,
                                             \<lparr>key_0 = Some ''b.vtt'', key_3 = Some ''eng''\<rparr>,
                                             \<lparr>key_0 = Some ''c.vtt'', key_3 = Some ''cym''\<rparr>]\<rparr>"
    by (simp add: example_env_def)
  have cfg': "download_player_configuration example_env_no_streams (player_configuration_url ''123'')
           = Config \<lparr>cfg_filename = Some ''rownd.mp4'', cfg_poster = None,
                       cfg_subtitles = Some [\<lparr>key_0 = Some ''a.vtt'', key_3 = Some ''cym''\<rparr>,
                                             \<lparr>key_0 = None, key_3 = Some ''eng''\<rparr>,
                                             \<lparr>key_0 = Some ''b.vtt'', key_3 = Some ''eng''\<rparr>,
                                             \<lparr>key_0 = Some ''c.vtt'', key_3 = Some ''cym''\<rparr>]\<rparr>"
    by (simp add: example_env_no_streams_def example_env_def)
  have none: "download_streaming_urls example_env_no_streams u = None" for u
    by (simp add: example_env_no_streams_def)
  have empty: "fetch_and_validate_streaming_urls example_env_no_streams ''rownd.mp4'' ''123'' = []"
    by (simp add: fetch_and_validate_streaming_urls_def fetch_region_def none)
  have 1: "fetch_and_validate_streaming_urls example_env ''rownd.mp4'' ''123''
       = fetch_region example_env ''rownd.mp4'' ''UK''"
    using streaming_regions_and_unavailable [of example_env "''rownd.mp4''" "''123''" example_episode] ww by blast
  have 2: "\<not> (\<exists>e. extract_episode_info example_env example_episode ''123'' = Inl e
             \<and> is_StreamingUnavailableError e)"
    using streaming_regions_and_unavailable [of example_env "''rownd.mp4''" "''123''" example_episode] cfg 1 uk
    by (simp add: truthy_def)
  have 3: "\<exists>e. extract_episode_info example_env_no_streams example_episode ''123'' = Inl e
           \<and> is_StreamingUnavailableError e"
    using streaming_regions_and_unavailable [of example_env_no_streams "''rownd.mp4''" "''123''" example_episode] cfg' empty
    by (simp add: truthy_def)
  show ?thesis using ww 1 uk 2 none 3 by blast
qed

section \<open>Subtitles\<close>

lemma map_of_setdefault_append:
  "map_of (setdefault_append k v acc) k'
   = (if k' = k then Some (get_or [] (map_of acc k) @ [v]) else map_of acc k')"
  by (induction acc) (auto simp: get_or_def)

lemma keys_setdefault_append:
  "fst ` set (setdefault_append k v acc) = insert k (fst ` set acc)"
proof (induction acc)
  case Nil
  then show ?case by simp
next
  case (Cons p acc)
  obtain k' vs where p: "p = (k', vs)" by (cases p)
  show ?case
  proof (cases "k' = k")
    case True
    then show ?thesis by (simp add: p)
  next
    case False
    then show ?thesis using Cons.IH by (simp add: p insert_commute)
  qed
qed

lemma distinct_setdefault_append:
  "distinct (map fst acc) \<Longrightarrow> distinct (map fst (setdefault_append k v acc))"
proof (induction acc)
  case Nil
  then show ?case by simp
next
  case (Cons p acc)
  obtain k' vs where p: "p = (k', vs)" by (cases p)
  show ?case
  proof (cases "k' = k")
    case True
    then show ?thesis using Cons.prems p by simp
  next
    case False
    have "k' \<notin> fst ` set (setdefault_append k v acc)"
      using Cons.prems False p by (simp add: keys_setdefault_append)
    then show ?thesis using Cons p False by simp
  qed
qed

lemma subtitle_fold:
  fixes step :: "(string \<times> subtitle_track list) list \<Rightarrow> subtitle_descriptor
                 \<Rightarrow> (string \<times> subtitle_track list) list"
  defines "step \<equiv> (\<lambda>subtitles subtitle.
              (let lang_code = key_3 subtitle; vtt_url = key_0 subtitle
               in if truthy lang_code \<and> truthy vtt_url
                  then setdefault_append (the lang_code)
                         \<lparr>url = the vtt_url, ext = ''vtt''\<rparr> subtitles
                  else subtitles))"
  shows "map_of (foldl step acc ds) lang
         = (case map_of acc lang of
              None \<Rightarrow> if tracks_for lang ds = [] then None else Some (tracks_for lang ds)
            | Some vs \<Rightarrow> Some (vs @ tracks_for lang ds))"
    and "distinct (map fst acc) \<Longrightarrow> distinct (map fst (foldl step acc ds))"
proof -
  have s: "map_of (step acc d) lang
           = (if valid_descriptor d \<and> key_3 d = Some lang
              then Some (get_or [] (map_of acc lang) @ [\<lparr>url = the (key_0 d), ext = ''vtt''\<rparr>])
              else map_of acc lang)" for acc d
    by (auto simp: step_def Let_def valid_descriptor_def map_of_setdefault_append truthy_def
        split: option.splits)
  show "map_of (foldl step acc ds) lang
         = (case map_of acc lang of
              None \<Rightarrow> if tracks_for lang ds = [] then None else Some (tracks_for lang ds)
            | Some vs \<Rightarrow> Some (vs @ tracks_for lang ds))"
  proof (induction ds arbitrary: acc)
    case Nil
    then show ?case by (simp add: tracks_for_def split: option.splits)
  next
    case (Cons d ds)
    show ?case
      by (simp add: Cons.IH s) (auto simp: tracks_for_def get_or_def split: option.splits)
  qed
  have d: "distinct (map fst acc) \<Longrightarrow> distinct (map fst (step acc d))" for acc d
    by (simp add: step_def Let_def distinct_setdefault_append)
  show "distinct (map fst acc) \<Longrightarrow> distinct (map fst (foldl step acc ds))"
    by (induction ds arbitrary: acc) (simp_all add: d)
qed

text \<open>
  C10: a descriptor whose key \<open>"3"\<close> or key \<open>"0"\<close> is missing is skipped; under each
  language code the output has the tracks \<open>{url, ext: vtt}\<close> of the other descriptors
  of that language, in the order of the input, and a language without such a
  descriptor is not a key.  Every key occurs once.
\<close>

theorem collect_subtitles_groups:
  "map_of (collect_subtitles subtitles_list) lang
     = (if tracks_for lang subtitles_list = [] then None
        else Some (tracks_for lang subtitles_list))
   \<and> distinct (map fst (collect_subtitles subtitles_list))"
  unfolding collect_subtitles_def
  using subtitle_fold(1) [of "[]" subtitles_list lang] subtitle_fold(2) [of "[]" subtitles_list]
  by simp

section \<open>The series resolver\<close>

lemma make_entries_Inr:
  "make_entries es = Inr entries \<Longrightarrow>
     length entries = length es
     \<and> (\<forall>x \<in> set entries. ref_ie x = S4CClicProgrammeIndividual)
     \<and> map (\<lambda>x. Some (ref_video_id x)) entries = map ep_id es"
proof (induction es arbitrary: entries)
  case Nil
  then show ?case by simp
next
  case (Cons e es)
  then show ?case
    by (auto split: option.splits sum.splits)
qed

lemma make_entries_total:
  "\<forall>e \<in> set es. ep_id e \<noteq> None \<Longrightarrow> \<exists>entries. make_entries es = Inr entries"
proof (induction es)
  case Nil
  then show ?case by simp
next
  case (Cons e es)
  then obtain entries where "make_entries es = Inr entries" by auto
  moreover obtain i where "ep_id e = Some i" using Cons.prems by auto
  ultimately show ?case by simp
qed

lemma programme_individual_no_playlist:
  "programme_individual_extract_video_info env programme_id \<noteq> Inr (Playlist entries i t)"
  unfolding programme_individual_extract_video_info_def
  by (simp split: option.splits sum.splits)

text \<open>
  C5: for a series payload whose list of other programmes is empty or absent, the
  series resolver returns what the builder returns for the first programme of the
  primary list, a single record and not a playlist.  Otherwise, every listed programme
  having an id, it returns a playlist with one entry for each programme of the two
  lists, and every entry names the individual programme resolver, which never returns
  a playlist.
\<close>

theorem series_resolution:
  assumes "download_details env (series_details_url series_id) = Some series_data"
  shows "(\<not> has_other_progs series_data \<and> full_prog_details series_data = Some (first # rest)
          \<longrightarrow> series_extract_video_info env series_id
              = (case extract_episode_info env first series_id of
                   Inl e \<Rightarrow> Inl e
                 | Inr r \<Rightarrow> Inr (Video r)))
       \<and> (has_other_progs series_data
            \<and> (\<forall>e \<in> set (get_or [] (full_prog_details series_data)
                          @ get_or [] (other_progs_in_series series_data)). ep_id e \<noteq> None)
          \<longrightarrow> (\<exists>entries.
                 series_extract_video_info env series_id
                   = Inr (Playlist entries (Some series_id) (playlist_title series_data))
                 \<and> length entries
                   = length (get_or [] (full_prog_details series_data))
                     + length (get_or [] (other_progs_in_series series_data))
                 \<and> (\<forall>x \<in> set entries. ref_ie x = S4CClicProgrammeIndividual)))
       \<and> (\<forall>programme_id entries i t.
            programme_individual_extract_video_info env programme_id
            \<noteq> Inr (Playlist entries i t))"
proof (intro conjI impI)
  assume "\<not> has_other_progs series_data \<and> full_prog_details series_data = Some (first # rest)"
  then show "series_extract_video_info env series_id
              = (case extract_episode_info env first series_id of
                   Inl e \<Rightarrow> Inl e
                 | Inr r \<Rightarrow> Inr (Video r))"
    using assms by (simp add: series_extract_video_info_def first_prog_def)
next
  assume a: "has_other_progs series_data
            \<and> (\<forall>e \<in> set (get_or [] (full_prog_details series_data)
                          @ get_or [] (other_progs_in_series series_data)). ep_id e \<noteq> None)"
  then obtain entries where e:
    "make_entries (get_or [] (full_prog_details series_data)
                   @ get_or [] (other_progs_in_series series_data)) = Inr entries"
    using make_entries_total by blast
  have "series_extract_video_info env series_id
          = Inr (Playlist entries (Some series_id) (playlist_title series_data))"
    using assms a e by (simp add: series_extract_video_info_def series_playlist_def)
  moreover have "length entries
                   = length (get_or [] (full_prog_details series_data))
                     + length (get_or [] (other_progs_in_series series_data))"
    using make_entries_Inr [OF e] by simp
  moreover have "\<forall>x \<in> set entries. ref_ie x = S4CClicProgrammeIndividual"
    using make_entries_Inr [OF e] by simp
  ultimately show "\<exists>entries.
                 series_extract_video_info env series_id
                   = Inr (Playlist entries (Some series_id) (playlist_title series_data))
                 \<and> length entries
                   = length (get_or [] (full_prog_details series_data))
                     + length (get_or [] (other_progs_in_series series_data))
                 \<and> (\<forall>x \<in> set entries. ref_ie x = S4CClicProgrammeIndividual)"
    by blast
next
  show "\<forall>programme_id entries i t.
            programme_individual_extract_video_info env programme_id
            \<noteq> Inr (Playlist entries i t)"
    using programme_individual_no_playlist by blast
qed

lemma example_single_ok:
  "\<not> isl (extract_episode_info example_env_single example_episode ''77'')"
  by code_simp

theorem series_resolution_witness:
  "(\<exists>r. series_extract_video_info example_env_single ''77'' = Inr (Video r))
   \<and> (\<exists>entries. series_extract_video_info example_env_series ''77''
                   = Inr (Playlist entries (Some ''77'') (Some ''Rownd a Rownd - Cyfres 23''))
                 \<and> length entries = 3
                 \<and> (\<forall>x \<in> set entries. ref_ie x = S4CClicProgrammeIndividual))"
proof -
  have d1: "download_details example_env_single (series_details_url ''77'') = Some example_single"
    by (simp add: example_env_single_def)
  have h1: "\<not> has_other_progs example_single
            \<and> full_prog_details example_single = Some (example_episode # [])"
    by (simp add: has_other_progs_def example_single_def)
  obtain r where r: "extract_episode_info example_env_single example_episode ''77'' = Inr r"
    using example_single_ok
    by (cases "extract_episode_info example_env_single example_episode ''77''") auto
  have 1: "\<exists>r. series_extract_video_info example_env_single ''77'' = Inr (Video r)"
    using series_resolution [OF d1, of example_episode "[]"] h1 r by simp
  have d2: "download_details example_env_series (series_details_url ''77'') = Some example_series"
    by (simp add: example_env_series_def)
  have h2: "has_other_progs example_series
            \<and> (\<forall>e \<in> set (get_or [] (full_prog_details example_series)
                          @ get_or [] (other_progs_in_series example_series)). ep_id e \<noteq> None)"
    by (simp add: has_other_progs_def example_series_def get_or_def example_episode_def
        plain_episode_def)
  have t: "playlist_title example_series = Some ''Rownd a Rownd - Cyfres 23''"
    by (simp add: playlist_title_def example_series_def example_episode_def)
  have l: "length (get_or [] (full_prog_details example_series))
           + length (get_or [] (other_progs_in_series example_series)) = 3"
    by (simp add: example_series_def get_or_def)
  have 2: "\<exists>entries. series_extract_video_info example_env_series ''77''
                   = Inr (Playlist entries (Some ''77'') (Some ''Rownd a Rownd - Cyfres 23''))
                 \<and> length entries = 3
                 \<and> (\<forall>x \<in> set entries. ref_ie x = S4CClicProgrammeIndividual)"
    using series_resolution [OF d2, of example_episode "[]"] h2 t l by simp
  show ?thesis using 1 2 by blast
qed

end
